theory Spec2Isabelle
  imports Complex_Main
begin

section \<open>JavaScript values used by the client and the monitor\<close>

text \<open>
  The TypeScript sources compute with \<^verbatim>\<open>number | undefined\<close>: a request's \<^verbatim>\<open>sendTime\<close> is
  absent until the send callback ran, and the \<^verbatim>\<open>time\<close> of a native view event is typed
  \<^verbatim>\<open>any\<close>. Numbers are modelled as exact reals (no IEEE rounding, no infinities);
  \<open>NaN\<close> and \<open>Undefined\<close> are kept apart because the code tests truthiness and subtracts.
  The code computes in double precision, so a difference of the model is the difference of
  the code where the exact result is a double; what is proved about a computed duration
  is stated for operands for which that holds.
\<close>

datatype jsval = Undefined | NaN | Num real

text \<open>\<^verbatim>\<open>!!v\<close>: zero, NaN and undefined are falsy.\<close>

fun truthy :: "jsval \<Rightarrow> bool" where
  "truthy (Num x) = (x \<noteq> 0)"
| "truthy NaN = False"
| "truthy Undefined = False"

text \<open>\<^verbatim>\<open>a - b\<close>: undefined converts to NaN, and NaN is absorbing.\<close>

fun js_minus :: "jsval \<Rightarrow> jsval \<Rightarrow> jsval" where
  "js_minus (Num a) (Num b) = Num (a - b)"
| "js_minus _ _ = NaN"


text \<open>\<^verbatim>\<open>Math.round\<close>: the nearest integer, ties towards plus infinity.\<close>

fun Math_round :: "jsval \<Rightarrow> jsval" where
  "Math_round (Num x) = Num (of_int \<lfloor>x + 1 / 2\<rfloor>)"
| "Math_round _ = NaN"

text \<open>
  What a call (or, for an \<^verbatim>\<open>async\<close> function, its promise) ends in. \<open>StackOverflow\<close> is
  the \<^verbatim>\<open>RangeError\<close> of an exhausted call stack, \<open>InvalidTime\<close> the \<^verbatim>\<open>RangeError\<close> that
  \<^verbatim>\<open>toISOString\<close> raises on an invalid date, \<open>TypeError\<close> a property read on
  \<^verbatim>\<open>undefined\<close>.
\<close>

datatype error = StackOverflow | InvalidTime | TypeError

datatype outcome = Resolved | Rejected error

text \<open>
  \<^verbatim>\<open>new Date(x).toISOString()\<close> for a number \<open>x\<close>: the date keeps the integral part of
  \<open>x\<close> when it lies within 8.64e15 ms of the epoch and is invalid otherwise, and
  \<^verbatim>\<open>toISOString\<close> throws on an invalid date. The models keep the time value itself, of
  which the ISO string is a rendering.
\<close>

definition toISOString :: "real \<Rightarrow> error + int" where
  "toISOString x =
     (if \<bar>x\<bar> \<le> 8640000000000000 then Inr (if 0 \<le> x then \<lfloor>x\<rfloor> else \<lceil>x\<rceil>)
      else Inl InvalidTime)"

text \<open>Decimal rendering of an integer inside a template literal.\<close>

fun nat_to_string :: "nat \<Rightarrow> string" where
  "nat_to_string n =
     (if n < 10 then [''0123456789'' ! n]
      else nat_to_string (n div 10) @ [''0123456789'' ! (n mod 10)])"

definition number_to_string :: "int option \<Rightarrow> string" where
  "number_to_string v =
     (case v of
        None \<Rightarrow> ''undefined''
      | Some i \<Rightarrow> if i < 0 then CHR ''-'' # nat_to_string (nat (- i)) else nat_to_string (nat i))"

section \<open>The client (src/RaygunClient.ts)\<close>

text \<open>
  \<^verbatim>\<open>types.ts\<close>, \<^verbatim>\<open>utils.ts\<close> and \<^verbatim>\<open>helper.ts\<close> are not part of the sources at hand. The
  records below hold the fields the client reads and writes. A field that may be absent
  is an \<open>option\<close>. \<open>tags\<close> is a JavaScript \<^verbatim>\<open>Set\<close>: its elements in insertion order,
  without repetition. Custom data values are kept as their JSON text.
\<close>

record User =
  identifier' :: string
  isAnonymous :: "bool option"
  email :: "string option"
  firstName :: "string option"
  fullName :: "string option"
  uuid :: "string option"

record Breadcrumb =
  message :: string
  category :: string
  level :: string
  customData :: "string \<rightharpoonup> string"
  timestamp :: int

record Session =
  tags :: "string list"
  customData :: "string \<rightharpoonup> string"
  breadcrumbs :: "Breadcrumb list"
  user :: User

record RaygunClientOptions =
  enableNativeCrashReporting :: bool
  enableRUM :: bool
  version :: string

record JSError =
  name :: "string option"
  message :: "string option"

record StackFrame =
  file' :: "string option"
  methodName :: "string option"
  lineNumber :: "int option"
  column :: "int option"

text \<open>
  The \<^verbatim>\<open>stackFrames\<close> argument is declared an array, and the function also accepts a
  single frame (\<^verbatim>\<open>Array.isArray\<close>).
\<close>

datatype stack_frames = FrameArray "StackFrame list" | SingleFrame StackFrame

record StackTraceEntry =
  FileName :: "string option"
  MethodName :: string
  LineNumber :: "int option"
  ColumnNumber :: "int option"
  ClassName :: string

record CrashError =
  ClassName :: string
  Message :: string
  StackTrace :: "StackTraceEntry list"
  StackString :: string

datatype env_value = EnvNumber real | EnvBool bool | EnvText string

record CrashClient =
  Name :: string
  Version :: string

record CrashDetails =
  Error :: CrashError
  Environment :: "string \<rightharpoonup> env_value"
  Client :: CrashClient
  UserCustomData :: "string \<rightharpoonup> string"
  Tags :: "string list"
  User :: User
  Breadcrumbs :: "Breadcrumb list"
  Version :: string

record CrashReportPayload =
  OccurredOn :: int
  Details :: CrashDetails

datatype native_call = Native_clearSession | Native_setTags "string list"

text \<open>
  The module's state: its two variables \<^verbatim>\<open>curSession\<close> and \<^verbatim>\<open>GlobalOptions\<close> (which is
  unassigned until \<^verbatim>\<open>init\<close> has run), the calls made on the native bridge, and what
  the module reads from its surroundings: \<open>deviceBasedId\<close> is the result of
  \<^verbatim>\<open>getDeviceBasedId()\<close>, \<open>environmentInfo\<close> the result of the bridge's
  \<^verbatim>\<open>getEnvironmentInfo\<close> (\<open>None\<close> when the bridge has no such function),
  \<open>timezoneOffset\<close> the result of \<^verbatim>\<open>getTimezoneOffset()\<close>, \<open>wallClock\<close> the time value
  of \<^verbatim>\<open>new Date()\<close>.
\<close>

record ClientState =
  curSession :: Session
  GlobalOptions :: "RaygunClientOptions option"
  nativeCalls :: "native_call list"
  deviceBasedId :: string
  environmentInfo :: "(string \<rightharpoonup> env_value) option"
  timezoneOffset :: real
  platformOS :: string
  clientVersion :: string
  wallClock :: int

definition getCleanSession :: "ClientState \<Rightarrow> Session" where
  "getCleanSession c =
     \<lparr>tags = [''React Native''],
      customData = Map.empty,
      breadcrumbs = [],
      user = \<lparr>identifier' = ''anonymous-'' @ deviceBasedId c, isAnonymous = None, email = None,
               firstName = None, fullName = None, uuid = None\<rparr>\<rparr>"

text \<open>
  \<^verbatim>\<open>clearSession\<close> assigns the clean session first and reads \<^verbatim>\<open>GlobalOptions\<close> after:
  before \<^verbatim>\<open>init\<close> that read throws, with the session already replaced.
\<close>

definition clearSession :: "ClientState \<Rightarrow> outcome \<times> ClientState" where
  "clearSession c =
     (let c1 = c\<lparr>curSession := getCleanSession c\<rparr> in
      case GlobalOptions c1 of
        None \<Rightarrow> (Rejected TypeError, c1)
      | Some opts \<Rightarrow>
          if enableNativeCrashReporting opts
          then (Resolved, c1\<lparr>nativeCalls := nativeCalls c1 @ [Native_clearSession]\<rparr>)
          else (Resolved, c1))"

text \<open>
  \<^verbatim>\<open>Set.prototype.add\<close>, as \<^verbatim>\<open>addTag\<close> applies it to each of its arguments before it
  mirrors the tags to the native side.
\<close>

definition Set_add :: "string \<Rightarrow> string list \<Rightarrow> string list" where
  "Set_add t ts = (if t \<in> set ts then ts else ts @ [t])"

definition addTag :: "string list \<Rightarrow> ClientState \<Rightarrow> outcome \<times> ClientState" where
  "addTag ts c =
     (let c1 = c\<lparr>curSession :=
                   (curSession c)\<lparr>tags := foldl (\<lambda>acc t. Set_add t acc) (tags (curSession c)) ts\<rparr>\<rparr>
      in case GlobalOptions c1 of
           None \<Rightarrow> (Rejected TypeError, c1)
         | Some opts \<Rightarrow>
             if enableNativeCrashReporting opts
             then (Resolved, c1\<lparr>nativeCalls := nativeCalls c1 @ [Native_setTags (tags (curSession c1))]\<rparr>)
             else (Resolved, c1))"

definition convertToCrashReportingStackFrame :: "StackFrame \<Rightarrow> StackTraceEntry" where
  "convertToCrashReportingStackFrame f =
     \<lparr>FileName = file' f,
      MethodName = (case methodName f of None \<Rightarrow> ''[anonymous]''
                    | Some m \<Rightarrow> if m = [] then ''[anonymous]'' else m),
      LineNumber = lineNumber f,
      ColumnNumber = column f,
      ClassName = ''line '' @ number_to_string (lineNumber f) @ '', column ''
                    @ number_to_string (column f)\<rparr>"

text \<open>\<^verbatim>\<open>Error.prototype.toString\<close>, as the language defines it.\<close>

definition Error_toString :: "JSError \<Rightarrow> string" where
  "Error_toString e =
     (let n = (case name e of None \<Rightarrow> ''Error'' | Some n \<Rightarrow> n);
          m = (case message e of None \<Rightarrow> [] | Some m \<Rightarrow> m)
      in if n = [] then m else if m = [] then n else n @ '': '' @ m)"

text \<open>\<^verbatim>\<open>v || ''\<close> on an optional string.\<close>

definition or_empty :: "string option \<Rightarrow> string" where
  "or_empty v = (case v of None \<Rightarrow> [] | Some x \<Rightarrow> x)"

text \<open>
  \<^verbatim>\<open>generateCrashReportPayload\<close>. The \<^verbatim>\<open>error\<close> argument may be \<^verbatim>\<open>null\<close> (\<open>None\<close>), which
  the optional chaining of the source allows for. \<^verbatim>\<open>upperFirst\<close> of \<^verbatim>\<open>helper.ts\<close>
  capitalises the keys of the user and the breadcrumbs and leaves their values, so the
  records pass through unchanged. The call of the bridge's \<^verbatim>\<open>getEnvironmentInfo\<close> is
  taken to resolve, with \<open>environmentInfo\<close>. The last field read is
  \<^verbatim>\<open>GlobalOptions.version\<close>, which throws before \<^verbatim>\<open>init\<close>.
\<close>

definition generateCrashReportPayload ::
  "ClientState \<Rightarrow> JSError option \<Rightarrow> stack_frames \<Rightarrow> Session \<Rightarrow> error + CrashReportPayload" where
  "generateCrashReportPayload c err stackFrames session =
     (let environmentDetails = (case environmentInfo c of None \<Rightarrow> Map.empty | Some m \<Rightarrow> m) in
      case GlobalOptions c of
        None \<Rightarrow> Inl TypeError
      | Some opts \<Rightarrow>
          Inr \<lparr>OccurredOn = wallClock c,
               Details =
                 \<lparr>Error =
                    \<lparr>ClassName = (case err of None \<Rightarrow> [] | Some e \<Rightarrow> or_empty (name e)),
                     Message = (case err of None \<Rightarrow> [] | Some e \<Rightarrow> or_empty (message e)),
                     StackTrace =
                       (case stackFrames of
                          FrameArray fs \<Rightarrow> map convertToCrashReportingStackFrame fs
                        | SingleFrame f \<Rightarrow> [convertToCrashReportingStackFrame f]),
                     StackString = (case err of None \<Rightarrow> [] | Some e \<Rightarrow> Error_toString e)\<rparr>,
                  Environment =
                    [''UtcOffset'' \<mapsto> EnvNumber (timezoneOffset c / 60),
                     ''JailBroken'' \<mapsto> EnvBool False] ++ environmentDetails,
                  Client = \<lparr>Name = ''raygun4reactnative.'' @ platformOS c,
                            Version = clientVersion c\<rparr>,
                  UserCustomData = customData session,
                  Tags = tags session,
                  User = user session,
                  Breadcrumbs = breadcrumbs session,
                  Version = (if version opts = [] then ''Not supplied'' else version opts)\<rparr>\<rparr>)"

section \<open>Types of the real user monitor (sdk/src/RealUserMonitor.ts)\<close>

text \<open>
  \<^verbatim>\<open>Types.ts\<close> is not part of the sources at hand. The enum members the class names are
  the constructors below; \<open>UnknownTiming\<close> stands for any other value an untyped caller
  may pass as \<^verbatim>\<open>eventType\<close>.
\<close>

datatype RealUserMonitoringEvents = SessionStart | SessionEnd | EventTiming

datatype RealUserMonitoringTimings = ViewLoaded | NetworkCall | UnknownTiming string

text \<open>
  The \<^verbatim>\<open>data\<close> argument of a transmission: \<^verbatim>\<open>{}\<close> for session events, or
  \<^verbatim>\<open>{ name, timing: { type, duration } }\<close> for timing events.
\<close>

datatype rum_data = NoData | Timing string RealUserMonitoringTimings jsval

record RequestMeta =
  name :: string
  sendTime :: jsval

record RealUserMonitorPayload =
  type :: RealUserMonitoringEvents
  timestamp :: int
  tags :: "string list"
  user :: string
  sessionId :: string
  payloadVersion :: string
  os :: string
  osVersion :: string
  platform :: string
  data :: rum_data

datatype log_entry =
    ViewStartedLoading string
  | ViewFinishedLoading string
  | UndefinedStartTime string
  | Transmitting RealUserMonitoringEvents RealUserMonitorPayload
  | UnableToSend

text \<open>The \<^verbatim>\<open>xhr\<close> object of the interceptor: the \<^verbatim>\<open>_id_\<close> property the monitor attaches.\<close>

record XMLHttpRequest =
  xhr_id :: "string option"

text \<open>
  The state: the fields of the class, followed by the environment the class reads and
  writes. \<open>clock\<close> lists the successive readings of the system clock (\<^verbatim>\<open>Date.now()\<close>,
  \<^verbatim>\<open>new Date()\<close>) and \<open>ticks\<close> counts the readings taken; \<open>guids\<close> lists the successive
  results of \<^verbatim>\<open>getRandomGUID(32)\<close>; \<open>posted\<close> is the sequence of payloads handed to
  \<^verbatim>\<open>fetch\<close> (always to the same URL, built from \<open>raygunRumEndpoint\<close> and \<open>apiKey\<close>);
  \<open>fetchFails k\<close> tells whether the \<open>k\<close>-th \<^verbatim>\<open>fetch\<close> rejects; \<open>currentTags\<close> and
  \<open>currentUser\<close> are what \<^verbatim>\<open>getCurrentTags()\<close> and \<^verbatim>\<open>getCurrentUser()\<close> return;
  the last three fields are \<^verbatim>\<open>Platform.OS\<close> and the \<^verbatim>\<open>osVersion\<close> and \<^verbatim>\<open>platform\<close> constants
  of the native bridge. The \<^verbatim>\<open>data\<close> field of a payload is kept as the value that
  \<^verbatim>\<open>JSON.stringify\<close> renders.
\<close>

record RealUserMonitor =
  apiKey :: string
  version :: string
  disableNetworkMonitoring :: bool
  ignoredURLs :: "string list"
  ignoredViews :: "string list"
  requests :: "string \<rightharpoonup> RequestMeta"
  raygunRumEndpoint :: string
  loadingViews :: "string \<rightharpoonup> jsval"
  lastSessionInteractionTime :: int
  RealUserMonitoringSessionId :: string
  clock :: "nat \<Rightarrow> int"
  ticks :: nat
  guids :: "nat \<Rightarrow> string"
  guidsDrawn :: nat
  posted :: "RealUserMonitorPayload list"
  fetchFails :: "nat \<Rightarrow> bool"
  logged :: "log_entry list"
  currentTags :: "string list"
  currentUser :: string
  Platform_OS :: string
  nativeOsVersion :: string
  nativePlatform :: string

text \<open>
  The helpers of \<^verbatim>\<open>Utils.ts\<close> are not part of the sources at hand. The two ignore-list
  tests are taken as parameters; \<open>DEVICE_ID\<close> is described with \<open>getDeviceId\<close> below.
\<close>

record Utils =
  shouldIgnoreURL :: "string \<Rightarrow> string list \<Rightarrow> bool"
  shouldIgnoreView :: "string \<Rightarrow> string list \<Rightarrow> bool"
  DEVICE_ID :: string

definition defaultURLIgnoreList :: "string list" where
  "defaultURLIgnoreList = [''api.raygun.com'', ''localhost:8081'']"

definition defaultViewIgnoreList :: "string list" where
  "defaultViewIgnoreList = []"

definition SessionRotateThreshold :: int where
  "SessionRotateThreshold = 30 * 60 * 1000"

section \<open>Session management and transmission\<close>

definition Date_now :: "RealUserMonitor \<Rightarrow> int \<times> RealUserMonitor" where
  "Date_now s = (clock s (ticks s), s\<lparr>ticks := Suc (ticks s)\<rparr>)"

text \<open>
  Modelled from the spec: \<^verbatim>\<open>getRandomGUID\<close> of \<^verbatim>\<open>Utils.ts\<close> is missing; the spec calls
  it random session-id generation of an opaque 32-character token. Each call draws the
  next token of \<open>guids\<close>.
\<close>

definition generateNewSessionId :: "RealUserMonitor \<Rightarrow> RealUserMonitor" where
  "generateNewSessionId s =
     s\<lparr>RealUserMonitoringSessionId := guids s (guidsDrawn s), guidsDrawn := Suc (guidsDrawn s)\<rparr>"

definition markSessionInteraction :: "RealUserMonitor \<Rightarrow> RealUserMonitor" where
  "markSessionInteraction s =
     (case Date_now s of (now, s') \<Rightarrow> s'\<lparr>lastSessionInteractionTime := now\<rparr>)"

text \<open>\<^verbatim>\<open>timeAt ? new Date(timeAt) : new Date()\<close> followed by \<^verbatim>\<open>toISOString()\<close>.\<close>

definition toTimestamp :: "jsval \<Rightarrow> RealUserMonitor \<Rightarrow> (error + int) \<times> RealUserMonitor" where
  "toTimestamp timeAt s =
     (case timeAt of
        Num x \<Rightarrow>
          if x \<noteq> 0 then (toISOString x, s)
          else (case Date_now s of (now, s') \<Rightarrow> (Inr now, s'))
      | _ \<Rightarrow> (case Date_now s of (now, s') \<Rightarrow> (Inr now, s')))"

definition generateRealUserMonitorPayload ::
  "RealUserMonitoringEvents \<Rightarrow> rum_data \<Rightarrow> jsval \<Rightarrow> RealUserMonitor
     \<Rightarrow> (error + RealUserMonitorPayload) \<times> RealUserMonitor" where
  "generateRealUserMonitorPayload eventName d timeAt s =
     (case toTimestamp timeAt s of
        (Inl e, s') \<Rightarrow> (Inl e, s')
      | (Inr t, s') \<Rightarrow>
          (Inr \<lparr>type = eventName, timestamp = t, tags = currentTags s', user = currentUser s',
                sessionId = RealUserMonitoringSessionId s', payloadVersion = version s',
                os = Platform_OS s', osVersion = nativeOsVersion s',
                platform = nativePlatform s', data = d\<rparr>, s'))"

text \<open>
  The \<^verbatim>\<open>fetch(...).catch(...)\<close> at the end of the transmission: the payload is posted; a
  rejected \<^verbatim>\<open>fetch\<close> is logged and swallowed.
\<close>

definition fetch_post :: "RealUserMonitorPayload \<Rightarrow> RealUserMonitor \<Rightarrow> RealUserMonitor" where
  "fetch_post p s =
     (if fetchFails s (length (posted s))
      then s\<lparr>posted := posted s @ [p], logged := logged s @ [UnableToSend]\<rparr>
      else s\<lparr>posted := posted s @ [p]\<rparr>)"

text \<open>Lines 288 to 302 of the transmission: build the payload, log it, post it.\<close>

definition sendPayload ::
  "RealUserMonitoringEvents \<Rightarrow> rum_data \<Rightarrow> jsval \<Rightarrow> RealUserMonitor \<Rightarrow> outcome \<times> RealUserMonitor" where
  "sendPayload eventName d timeAt s =
     (case generateRealUserMonitorPayload eventName d timeAt s of
        (Inl e, s') \<Rightarrow> (Rejected e, s')
      | (Inr rumMessage, s') \<Rightarrow>
          (Resolved,
           fetch_post rumMessage (s'\<lparr>logged := logged s' @ [Transmitting eventName rumMessage]\<rparr>)))"

text \<open>
  \<^verbatim>\<open>transmitRealUserMonitoringEvent\<close> and \<^verbatim>\<open>rotateRUMSession\<close> call each other, and
  nothing in the source bounds the depth of that recursion. The first argument is the
  number of call-stack frames still available: a call that finds none is the engine's
  stack overflow, which an \<^verbatim>\<open>async\<close> method turns into a rejected promise, and an
  \<^verbatim>\<open>await\<close> of a rejected promise rejects the awaiting method in turn. Each method runs
  to completion before the next callback of the host is served.
\<close>

fun transmitRealUserMonitoringEvent ::
  "nat \<Rightarrow> RealUserMonitoringEvents \<Rightarrow> rum_data \<Rightarrow> jsval \<Rightarrow> RealUserMonitor
     \<Rightarrow> outcome \<times> RealUserMonitor"
and rotateRUMSession :: "nat \<Rightarrow> RealUserMonitor \<Rightarrow> outcome \<times> RealUserMonitor" where
  "transmitRealUserMonitoringEvent 0 eventName d timeAt s = (Rejected StackOverflow, s)"
| "transmitRealUserMonitoringEvent (Suc n) eventName d timeAt s =
     (case Date_now s of (now, s1) \<Rightarrow>
        if now - lastSessionInteractionTime s1 > SessionRotateThreshold then
          (case rotateRUMSession n s1 of
             (Resolved, s2) \<Rightarrow> sendPayload eventName d timeAt s2
           | (Rejected e, s2) \<Rightarrow> (Rejected e, s2))
        else sendPayload eventName d timeAt (markSessionInteraction s1))"
| "rotateRUMSession 0 s = (Rejected StackOverflow, s)"
| "rotateRUMSession (Suc n) s =
     (case transmitRealUserMonitoringEvent n SessionEnd NoData Undefined s of
        (Resolved, s1) \<Rightarrow>
          transmitRealUserMonitoringEvent n SessionStart NoData Undefined
            (markSessionInteraction (generateNewSessionId s1))
      | (Rejected e, s1) \<Rightarrow> (Rejected e, s1))"

section \<open>Event handlers\<close>

text \<open>
  \<^verbatim>\<open>sendNetworkTimingEvent\<close> starts the transmission and drops its promise
  (\<^verbatim>\<open>.catch()\<close>): the caller goes on whatever the outcome.
\<close>

definition sendNetworkTimingEvent ::
  "nat \<Rightarrow> string \<Rightarrow> jsval \<Rightarrow> jsval \<Rightarrow> RealUserMonitor \<Rightarrow> RealUserMonitor" where
  "sendNetworkTimingEvent n nm sendTime' duration s =
     snd (transmitRealUserMonitoringEvent n EventTiming (Timing nm NetworkCall duration) sendTime' s)"

definition sendViewLoadedEvent ::
  "nat \<Rightarrow> Utils \<Rightarrow> string \<Rightarrow> jsval \<Rightarrow> RealUserMonitor \<Rightarrow> outcome \<times> RealUserMonitor" where
  "sendViewLoadedEvent n U nm duration s =
     (if shouldIgnoreView U nm (ignoredViews s) then (Resolved, s)
      else transmitRealUserMonitoringEvent n EventTiming (Timing nm ViewLoaded duration) Undefined s)"

definition sendCustomRUMEvent ::
  "nat \<Rightarrow> Utils \<Rightarrow> RealUserMonitoringTimings \<Rightarrow> string \<Rightarrow> jsval \<Rightarrow> RealUserMonitor
     \<Rightarrow> RealUserMonitor" where
  "sendCustomRUMEvent n U eventType nm duration s =
     (if eventType = ViewLoaded then snd (sendViewLoadedEvent n U nm duration s)
      else if eventType = NetworkCall then
        (case Date_now s of (now, s') \<Rightarrow>
           sendNetworkTimingEvent n nm (js_minus (Num (of_int now)) duration) duration s')
      else s)"

text \<open>
  The payload of a native view event is \<^verbatim>\<open>{ viewname, time }\<close>; the name is a string and
  the time is whatever the native side sent.
\<close>

definition viewBeginsLoading :: "string \<Rightarrow> jsval \<Rightarrow> RealUserMonitor \<Rightarrow> RealUserMonitor" where
  "viewBeginsLoading viewname time s =
     (let s1 = s\<lparr>logged := logged s @ [ViewStartedLoading viewname]\<rparr> in
      if loadingViews s1 viewname \<noteq> None then s1
      else s1\<lparr>loadingViews := (loadingViews s1)(viewname \<mapsto> time)\<rparr>)"

text \<open>
  \<^verbatim>\<open>cleanViewName\<close>: \<^verbatim>\<open>replace\<close> with a string pattern removes the first occurrence
  only, which for the prefix is the prefix itself.
\<close>

definition cleanViewName :: "string \<Rightarrow> string" where
  "cleanViewName viewname =
     (if take 10 viewname = ''iOS_View: ''
      then takeWhile (\<lambda>c. c \<noteq> CHR '':'')
             (remove1 (CHR ''>'') (remove1 (CHR ''<'') (drop 10 viewname)))
      else viewname)"

definition viewFinishesLoading ::
  "nat \<Rightarrow> Utils \<Rightarrow> string \<Rightarrow> jsval \<Rightarrow> RealUserMonitor \<Rightarrow> RealUserMonitor" where
  "viewFinishesLoading n U viewname time s =
     (let s1 = s\<lparr>logged := logged s @ [ViewFinishedLoading viewname]\<rparr> in
      case loadingViews s1 viewname of
        None \<Rightarrow> s1
      | Some viewLoadStartTime \<Rightarrow>
          if truthy viewLoadStartTime then
            (let duration = Math_round (js_minus time viewLoadStartTime);
                 s2 = s1\<lparr>loadingViews := (loadingViews s1)(viewname := None)\<rparr>
             in snd (sendViewLoadedEvent n U (cleanViewName viewname) duration s2))
          else s1\<lparr>logged := logged s1 @ [UndefinedStartTime viewname]\<rparr>)"

section \<open>Network monitoring\<close>

text \<open>
  Modelled from the spec: \<^verbatim>\<open>getDeviceId\<close> of \<^verbatim>\<open>Utils.ts\<close> is missing; the spec lists it
  among the pure identity utilities as the stable per-device identifier, and the comments
  of the callers name its result the device ID. It returns the same identifier at every
  call.
\<close>

definition getDeviceId :: "Utils \<Rightarrow> string" where
  "getDeviceId U = DEVICE_ID U"

definition handleRequestOpen ::
  "Utils \<Rightarrow> string \<Rightarrow> string \<Rightarrow> XMLHttpRequest \<Rightarrow> RealUserMonitor
     \<Rightarrow> XMLHttpRequest \<times> RealUserMonitor" where
  "handleRequestOpen U method url xhr s =
     (if shouldIgnoreURL U url (ignoredURLs s) then (xhr, s)
      else
        (let id' = getDeviceId U in
         (xhr\<lparr>xhr_id := Some id'\<rparr>,
          s\<lparr>requests := (requests s)(id' \<mapsto> \<lparr>name = method @ '' '' @ url, sendTime = Undefined\<rparr>)\<rparr>)))"

definition handleRequestSend :: "string \<Rightarrow> XMLHttpRequest \<Rightarrow> RealUserMonitor \<Rightarrow> RealUserMonitor" where
  "handleRequestSend body xhr s =
     (case xhr_id xhr of
        None \<Rightarrow> s
      | Some id' \<Rightarrow>
          (case requests s id' of
             None \<Rightarrow> s
           | Some requestMeta \<Rightarrow>
               (case Date_now s of (now, s') \<Rightarrow>
                  s'\<lparr>requests := (requests s')(id' \<mapsto> requestMeta\<lparr>sendTime := Num (of_int now)\<rparr>)\<rparr>)))"

definition handleResponse ::
  "nat \<Rightarrow> int \<Rightarrow> int \<Rightarrow> string \<Rightarrow> string \<Rightarrow> string \<Rightarrow> XMLHttpRequest \<Rightarrow> RealUserMonitor
     \<Rightarrow> RealUserMonitor" where
  "handleResponse n status timeout resp respUrl respType xhr s =
     (case xhr_id xhr of
        None \<Rightarrow> s
      | Some id' \<Rightarrow>
          (case requests s id' of
             None \<Rightarrow> s
           | Some requestMeta \<Rightarrow>
               (case Date_now s of (now, s') \<Rightarrow>
                  (let duration = js_minus (Num (of_int now)) (sendTime requestMeta)
                   in sendNetworkTimingEvent n (name requestMeta) (sendTime requestMeta) duration s'))))"

section \<open>Construction\<close>

text \<open>
  The constructor, applied to an environment \<open>env\<close> (a state of which only the
  environment part is read). The field initialisers run first, then the body; registering
  the interceptor callbacks and the native listeners changes nothing in the state. The
  final transmission is not awaited.
\<close>

definition RealUserMonitor_new ::
  "nat \<Rightarrow> string \<Rightarrow> bool \<Rightarrow> string list \<Rightarrow> string list \<Rightarrow> string \<Rightarrow> string \<Rightarrow> RealUserMonitor
     \<Rightarrow> RealUserMonitor" where
  "RealUserMonitor_new n apiKey' disableNetworkMonitoring' ignoredURLs' ignoredViews'
       customRealUserMonitoringEndpoint version' env =
     (let s0 = markSessionInteraction
                 (env\<lparr>requests := Map.empty, raygunRumEndpoint := ''https://api.raygun.com/events'',
                       loadingViews := Map.empty, RealUserMonitoringSessionId := []\<rparr>);
          s1 = s0\<lparr>apiKey := apiKey', disableNetworkMonitoring := disableNetworkMonitoring',
                  version := version',
                  ignoredURLs := ignoredURLs' @ defaultURLIgnoreList
                    @ (if customRealUserMonitoringEndpoint = [] then []
                       else [customRealUserMonitoringEndpoint]),
                  ignoredViews := ignoredViews' @ defaultViewIgnoreList\<rparr>;
          s2 = (if customRealUserMonitoringEndpoint \<noteq> []
                then s1\<lparr>raygunRumEndpoint := customRealUserMonitoringEndpoint\<rparr> else s1);
          s3 = (markSessionInteraction s2)\<lparr>RealUserMonitoringSessionId := []\<rparr>
      in snd (transmitRealUserMonitoringEvent n SessionStart NoData Undefined
                (generateNewSessionId s3)))"

section \<open>The earlier monitor (unnamed/part_000)\<close>

text \<open>
  The second variant of the class. Its enum \<^verbatim>\<open>RealUserMonitoringEvents\<close> also holds the
  two timing members; its session ids come from \<^verbatim>\<open>getDeviceBasedId()\<close>, whose successive
  results are \<open>deviceBasedIds\<close>.
\<close>

record Payload_p0 =
  type_p0 :: RealUserMonitoringEvents
  timestamp_p0 :: int
  user_p0 :: string
  sessionId_p0 :: string
  version_p0 :: string
  data_p0 :: rum_data

datatype log_p0 = Warn_UnknownRUMEventType RealUserMonitoringTimings | Log_fetchError

record Monitor_p0 =
  currentSessionUser :: string
  version_of_app :: string
  lastActiveAt :: int
  curRUMSessionId :: string
  clock_p0 :: "nat \<Rightarrow> int"
  ticks_p0 :: nat
  deviceBasedIds :: "nat \<Rightarrow> string"
  idsDrawn :: nat
  posted_p0 :: "Payload_p0 list"
  fetchFails_p0 :: "nat \<Rightarrow> bool"
  logged_p0 :: "log_p0 list"

definition Date_now_p0 :: "Monitor_p0 \<Rightarrow> int \<times> Monitor_p0" where
  "Date_now_p0 s = (clock_p0 s (ticks_p0 s), s\<lparr>ticks_p0 := Suc (ticks_p0 s)\<rparr>)"

definition sendRUMEvent ::
  "RealUserMonitoringEvents \<Rightarrow> rum_data \<Rightarrow> jsval \<Rightarrow> Monitor_p0 \<Rightarrow> outcome \<times> Monitor_p0" where
  "sendRUMEvent eventName d timeAt s =
     (let (t, s1) =
            (case timeAt of
               Num x \<Rightarrow>
                 if x \<noteq> 0 then (toISOString x, s)
                 else (case Date_now_p0 s of (now, s') \<Rightarrow> (Inr now, s'))
             | _ \<Rightarrow> (case Date_now_p0 s of (now, s') \<Rightarrow> (Inr now, s')))
      in case t of
           Inl e \<Rightarrow> (Rejected e, s1)
         | Inr ts \<Rightarrow>
             (let rumMessage = \<lparr>type_p0 = eventName, timestamp_p0 = ts,
                                user_p0 = currentSessionUser s1, sessionId_p0 = curRUMSessionId s1,
                                version_p0 = version_of_app s1, data_p0 = d\<rparr>;
                  s2 = s1\<lparr>posted_p0 := posted_p0 s1 @ [rumMessage]\<rparr>
              in (Resolved,
                  if fetchFails_p0 s1 (length (posted_p0 s1))
                  then s2\<lparr>logged_p0 := logged_p0 s2 @ [Log_fetchError]\<rparr> else s2)))"

definition reportStartupTime :: "string \<Rightarrow> jsval \<Rightarrow> Monitor_p0 \<Rightarrow> outcome \<times> Monitor_p0" where
  "reportStartupTime nm duration s =
     (let (r, s1) =
            (if curRUMSessionId s = [] then
               sendRUMEvent SessionStart NoData Undefined
                 (s\<lparr>curRUMSessionId := deviceBasedIds s (idsDrawn s), idsDrawn := Suc (idsDrawn s)\<rparr>)
             else (Resolved, s))
      in case r of
           Rejected e \<Rightarrow> (Rejected e, s1)
         | Resolved \<Rightarrow> sendRUMEvent EventTiming (Timing nm ViewLoaded duration) Undefined s1)"

definition sendNetworkTimingEventCallback ::
  "string \<Rightarrow> jsval \<Rightarrow> jsval \<Rightarrow> Monitor_p0 \<Rightarrow> Monitor_p0" where
  "sendNetworkTimingEventCallback nm sendTime' duration s =
     snd (sendRUMEvent EventTiming (Timing nm NetworkCall duration) sendTime' s)"

definition sendCustomRUMEvent_p0 ::
  "string \<Rightarrow> RealUserMonitoringTimings \<Rightarrow> string \<Rightarrow> jsval \<Rightarrow> string \<Rightarrow> Monitor_p0 \<Rightarrow> Monitor_p0" where
  "sendCustomRUMEvent_p0 apiKey' eventType nm duration customRealUserMonitoringEndpoint s =
     (if eventType = ViewLoaded then snd (reportStartupTime nm duration s)
      else if eventType = NetworkCall then
        (case Date_now_p0 s of (now, s') \<Rightarrow>
           sendNetworkTimingEventCallback nm (js_minus (Num (of_int now)) duration) duration s')
      else s\<lparr>logged_p0 := logged_p0 s @ [Warn_UnknownRUMEventType eventType]\<rparr>)"


section \<open>Sequences of calls\<close>

text \<open>
  The constructor registers methods of the monitor as listeners of the native events
  (pause, resume, view loading, view loaded) and as callbacks of the request interceptor
  (open, send, response); the remaining state-changing methods of the class are public and
  may be called by the client. A run is a sequence of such calls, each served to completion
  with its own depth of stack.
\<close>

datatype method_call =
    OnSessionPause
  | OnSessionResume
  | OnViewLoading string jsval
  | OnViewLoaded string jsval
  | OnOpen string string XMLHttpRequest
  | OnSend string XMLHttpRequest
  | OnResponse int int string string string XMLHttpRequest
  | CustomRUMEvent RealUserMonitoringTimings string jsval
  | NewSessionId
  | NetworkTimingEvent string jsval jsval
  | ViewLoadedEvent string jsval
  | Transmit RealUserMonitoringEvents rum_data jsval

fun dispatch :: "Utils \<Rightarrow> nat \<times> method_call \<Rightarrow> RealUserMonitor \<Rightarrow> RealUserMonitor" where
  "dispatch U (n, OnSessionPause) s = markSessionInteraction s"
| "dispatch U (n, OnSessionResume) s = snd (rotateRUMSession n s)"
| "dispatch U (n, OnViewLoading viewname time) s = viewBeginsLoading viewname time s"
| "dispatch U (n, OnViewLoaded viewname time) s = viewFinishesLoading n U viewname time s"
| "dispatch U (n, OnOpen method url xhr) s = snd (handleRequestOpen U method url xhr s)"
| "dispatch U (n, OnSend body xhr) s = handleRequestSend body xhr s"
| "dispatch U (n, OnResponse status timeout resp respUrl respType xhr) s =
     handleResponse n status timeout resp respUrl respType xhr s"
| "dispatch U (n, CustomRUMEvent eventType nm duration) s = sendCustomRUMEvent n U eventType nm duration s"
| "dispatch U (n, NewSessionId) s = generateNewSessionId s"
| "dispatch U (n, NetworkTimingEvent nm sendTime' duration) s =
     sendNetworkTimingEvent n nm sendTime' duration s"
| "dispatch U (n, ViewLoadedEvent nm duration) s = snd (sendViewLoadedEvent n U nm duration s)"
| "dispatch U (n, Transmit eventName d timeAt) s =
     snd (transmitRealUserMonitoringEvent n eventName d timeAt s)"

fun run :: "Utils \<Rightarrow> (nat \<times> method_call) list \<Rightarrow> RealUserMonitor \<Rightarrow> RealUserMonitor" where
  "run U [] s = s"
| "run U (c # cs) s = run U cs (dispatch U c s)"

section \<open>Sample states\<close>

text \<open>
  An environment whose clock jumps by more than thirty minutes after its fifth reading, and
  the monitor constructed in it: the construction takes the first five readings, so the
  monitor is idle beyond the threshold at its next call.
\<close>

definition idle_env :: RealUserMonitor where
  "idle_env =
     \<lparr>apiKey = [], version = [], disableNetworkMonitoring = False, ignoredURLs = [],
      ignoredViews = [], requests = Map.empty, raygunRumEndpoint = [],
      loadingViews = Map.empty, lastSessionInteractionTime = 0,
      RealUserMonitoringSessionId = [],
      clock = (\<lambda>k. if k < 5 then 1000 + int k else 1900000 + int k), ticks = 0,
      guids = (\<lambda>k. ''guid-'' @ nat_to_string k), guidsDrawn = 0, posted = [],
      fetchFails = (\<lambda>k. False), logged = [], currentTags = [''React Native''],
      currentUser = ''anonymous-device'', Platform_OS = ''ios'', nativeOsVersion = ''14.2'',
      nativePlatform = ''iPhone12,1''\<rparr>"

definition idle_monitor :: RealUserMonitor where
  "idle_monitor = RealUserMonitor_new 3 ''key'' False [] [] [] ''1.0'' idle_env"

text \<open>
  A sample instance of the helpers (an ignore list matches its own entries), an environment
  whose clock advances by one millisecond per reading, and the monitor constructed in it
  with the view \<open>Settings\<close> ignored.
\<close>

definition utils0 :: Utils where
  "utils0 = \<lparr>shouldIgnoreURL = (\<lambda>url ignored. url \<in> set ignored),
             shouldIgnoreView = (\<lambda>nm ignored. nm \<in> set ignored),
             DEVICE_ID = ''device-1''\<rparr>"

definition fresh_env :: RealUserMonitor where
  "fresh_env =
     \<lparr>apiKey = [], version = [], disableNetworkMonitoring = False, ignoredURLs = [],
      ignoredViews = [], requests = Map.empty, raygunRumEndpoint = [],
      loadingViews = Map.empty, lastSessionInteractionTime = 0,
      RealUserMonitoringSessionId = [],
      clock = (\<lambda>k. 1000 + int k), ticks = 0,
      guids = (\<lambda>k. ''guid-'' @ nat_to_string k), guidsDrawn = 0, posted = [],
      fetchFails = (\<lambda>k. False), logged = [], currentTags = [''React Native''],
      currentUser = ''anonymous-device'', Platform_OS = ''ios'', nativeOsVersion = ''14.2'',
      nativePlatform = ''iPhone12,1''\<rparr>"

definition fresh_monitor :: RealUserMonitor where
  "fresh_monitor = RealUserMonitor_new 3 ''key'' False [] [''Settings''] [] ''1.0'' fresh_env"

text \<open>
  A call context that carries the device id; the monitor after a request was opened, live
  and idle; and the live monitor after that request was also sent.
\<close>

definition xhr1 :: XMLHttpRequest where
  "xhr1 = \<lparr>xhr_id = Some ''device-1''\<rparr>"

definition unsent_monitor :: RealUserMonitor where
  "unsent_monitor =
     snd (handleRequestOpen utils0 ''GET'' ''https://example.com/a'' \<lparr>xhr_id = None\<rparr> fresh_monitor)"

definition idle_unsent_monitor :: RealUserMonitor where
  "idle_unsent_monitor =
     snd (handleRequestOpen utils0 ''GET'' ''https://example.com/a'' \<lparr>xhr_id = None\<rparr> idle_monitor)"

definition pending_monitor :: RealUserMonitor where
  "pending_monitor =
     handleRequestSend [] xhr1
       (snd (handleRequestOpen utils0 ''GET'' ''https://example.com/a'' \<lparr>xhr_id = None\<rparr> fresh_monitor))"

text \<open>
  A client after \<^verbatim>\<open>init\<close>, with a user, a second tag, custom data and a breadcrumb.
\<close>

definition client0 :: ClientState where
  "client0 =
     \<lparr>curSession =
        \<lparr>Session.tags = [''React Native'', ''x''],
         Session.customData = [''plan'' \<mapsto> ''pro''],
         breadcrumbs = [\<lparr>Breadcrumb.message = ''opened'', category = [], level = ''info'',
                          Breadcrumb.customData = Map.empty, Breadcrumb.timestamp = 990\<rparr>],
         Session.user = \<lparr>identifier' = ''alice'', isAnonymous = Some False, email = Some [],
                          firstName = Some [], fullName = Some [], uuid = None\<rparr>\<rparr>,
      GlobalOptions = Some \<lparr>enableNativeCrashReporting = True, enableRUM = True,
                              RaygunClientOptions.version = ''1.0''\<rparr>,
      nativeCalls = [], deviceBasedId = ''device-1'', environmentInfo = None,
      timezoneOffset = - 60, platformOS = ''ios'', clientVersion = ''0.1.0'', wallClock = 1000\<rparr>"


section \<open>Facts about the sample states\<close>

lemmas send_defs = Date_now_def markSessionInteraction_def sendPayload_def
  generateRealUserMonitorPayload_def toTimestamp_def toISOString_def fetch_post_def
  SessionRotateThreshold_def

lemmas rum_defs = RealUserMonitor_new_def generateNewSessionId_def defaultURLIgnoreList_def
  defaultViewIgnoreList_def send_defs

lemma idle_monitor_facts:
  "clock idle_monitor = (\<lambda>k. if k < 5 then 1000 + int k else 1900000 + int k)"
  "ticks idle_monitor = 5"
  "lastSessionInteractionTime idle_monitor = 1003"
  "RealUserMonitoringSessionId idle_monitor = ''guid-0''"
  "map type (posted idle_monitor) = [SessionStart]"
  by (simp_all add: idle_monitor_def idle_env_def rum_defs Let_def numeral_3_eq_3)

lemma fresh_monitor_facts:
  "clock fresh_monitor = (\<lambda>k. 1000 + int k)"
  "ticks fresh_monitor = 5"
  "lastSessionInteractionTime fresh_monitor = 1003"
  "RealUserMonitoringSessionId fresh_monitor = ''guid-0''"
  "map type (posted fresh_monitor) = [SessionStart]"
  "length (posted fresh_monitor) = 1"
  "loadingViews fresh_monitor = Map.empty"
  "requests fresh_monitor = Map.empty"
  "ignoredViews fresh_monitor = [''Settings'']"
  "ignoredURLs fresh_monitor = [''api.raygun.com'', ''localhost:8081'']"
  "fetchFails fresh_monitor = (\<lambda>k. False)"
  by (simp_all add: fresh_monitor_def fresh_env_def rum_defs Let_def numeral_3_eq_3)

lemma unsent_monitor_facts:
  "requests unsent_monitor ''device-1''
     = Some \<lparr>name = ''GET https://example.com/a'', sendTime = Undefined\<rparr>"
  "clock unsent_monitor = (\<lambda>k. 1000 + int k)"
  "ticks unsent_monitor = 5"
  "lastSessionInteractionTime unsent_monitor = 1003"
  "posted unsent_monitor = posted fresh_monitor"
  by (simp_all add: unsent_monitor_def handleRequestOpen_def getDeviceId_def utils0_def Let_def
      fresh_monitor_facts)

lemma idle_unsent_monitor_facts:
  "requests idle_unsent_monitor ''device-1''
     = Some \<lparr>name = ''GET https://example.com/a'', sendTime = Undefined\<rparr>"
  "clock idle_unsent_monitor = (\<lambda>k. if k < 5 then 1000 + int k else 1900000 + int k)"
  "ticks idle_unsent_monitor = 5"
  "lastSessionInteractionTime idle_unsent_monitor = 1003"
  "map type (posted idle_unsent_monitor) = [SessionStart]"
  by (simp_all add: idle_unsent_monitor_def handleRequestOpen_def getDeviceId_def utils0_def Let_def
      idle_monitor_facts idle_monitor_def idle_env_def rum_defs numeral_3_eq_3)

lemma pending_monitor_facts:
  "requests pending_monitor ''device-1''
     = Some \<lparr>name = ''GET https://example.com/a'', sendTime = Num 1005\<rparr>"
  "clock pending_monitor = (\<lambda>k. 1000 + int k)"
  "ticks pending_monitor = 6"
  "lastSessionInteractionTime pending_monitor = 1003"
  "posted pending_monitor = posted fresh_monitor"
  by (simp_all add: pending_monitor_def xhr1_def handleRequestSend_def handleRequestOpen_def
      getDeviceId_def utils0_def Date_now_def Let_def fresh_monitor_facts)

lemmas handler_defs = handleResponse_def sendNetworkTimingEvent_def viewFinishesLoading_def
  viewBeginsLoading_def sendViewLoadedEvent_def cleanViewName_def handleRequestOpen_def
  handleRequestSend_def getDeviceId_def sendCustomRUMEvent_def

lemma eval_nat: "(3::nat) = Suc (Suc (Suc 0))" "(2::nat) = Suc (Suc 0)"
  by simp_all


section \<open>What a transmission leaves unchanged\<close>

lemma sendPayload_frame:
  "loadingViews (snd (sendPayload ev d t s)) = loadingViews s"
  "requests (snd (sendPayload ev d t s)) = requests s"
  "ignoredViews (snd (sendPayload ev d t s)) = ignoredViews s"
  by (auto simp: sendPayload_def generateRealUserMonitorPayload_def toTimestamp_def Date_now_def
      fetch_post_def split: jsval.splits sum.splits prod.splits)

lemma mark_frame:
  "loadingViews (markSessionInteraction s) = loadingViews s"
  "requests (markSessionInteraction s) = requests s"
  "ignoredViews (markSessionInteraction s) = ignoredViews s"
  by (simp_all add: markSessionInteraction_def Date_now_def)

lemma transmit_rotate_frame:
  "loadingViews (snd (transmitRealUserMonitoringEvent n ev d t s)) = loadingViews s
   \<and> requests (snd (transmitRealUserMonitoringEvent n ev d t s)) = requests s
   \<and> loadingViews (snd (rotateRUMSession n s)) = loadingViews s
   \<and> requests (snd (rotateRUMSession n s)) = requests s"
proof (induction n arbitrary: s ev d t)
  case 0
  show ?case by simp
next
  case (Suc n)
  have rot: "loadingViews (snd (rotateRUMSession n s')) = loadingViews s'"
       "requests (snd (rotateRUMSession n s')) = requests s'" for s'
    using Suc.IH by blast+
  have tr: "loadingViews (snd (transmitRealUserMonitoringEvent n ev' d' t' s')) = loadingViews s'"
       "requests (snd (transmitRealUserMonitoringEvent n ev' d' t' s')) = requests s'" for s' ev' d' t'
    using Suc.IH by blast+
  have a: "loadingViews (snd (transmitRealUserMonitoringEvent (Suc n) ev d t s)) = loadingViews s"
    using rot(1) [of "s\<lparr>ticks := Suc (ticks s)\<rparr>"]
    by (auto simp: Date_now_def sendPayload_frame mark_frame split: prod.splits outcome.splits)
  have b: "requests (snd (transmitRealUserMonitoringEvent (Suc n) ev d t s)) = requests s"
    using rot(2) [of "s\<lparr>ticks := Suc (ticks s)\<rparr>"]
    by (auto simp: Date_now_def sendPayload_frame mark_frame split: prod.splits outcome.splits)
  have c: "loadingViews (snd (rotateRUMSession (Suc n) s)) = loadingViews s"
    using tr(1) [of SessionEnd NoData Undefined s]
      tr(1) [of SessionStart NoData Undefined "markSessionInteraction (generateNewSessionId (snd (transmitRealUserMonitoringEvent n SessionEnd NoData Undefined s)))"]
    by (auto simp: mark_frame generateNewSessionId_def split: prod.splits outcome.splits)
  have d: "requests (snd (rotateRUMSession (Suc n) s)) = requests s"
    using tr(2) [of SessionEnd NoData Undefined s]
      tr(2) [of SessionStart NoData Undefined "markSessionInteraction (generateNewSessionId (snd (transmitRealUserMonitoringEvent n SessionEnd NoData Undefined s)))"]
    by (auto simp: mark_frame generateNewSessionId_def split: prod.splits outcome.splits)
  from a b c d show ?case by blast
qed


lemma viewFinishesLoading_frame:
  "requests (viewFinishesLoading n U viewname t s) = requests s"
  by (auto simp: viewFinishesLoading_def sendViewLoadedEvent_def Let_def transmit_rotate_frame
      split: option.splits)

lemma sendCustomRUMEvent_frame:
  "loadingViews (sendCustomRUMEvent n U eventType nm duration s) = loadingViews s"
  "requests (sendCustomRUMEvent n U eventType nm duration s) = requests s"
  by (auto simp: sendCustomRUMEvent_def sendViewLoadedEvent_def sendNetworkTimingEvent_def
      Date_now_def transmit_rotate_frame split: prod.splits)

lemma handleResponse_frame:
  "loadingViews (handleResponse n status timeout resp respUrl respType xhr s) = loadingViews s"
  "requests (handleResponse n status timeout resp respUrl respType xhr s) = requests s"
  by (auto simp: handleResponse_def sendNetworkTimingEvent_def Date_now_def Let_def
      transmit_rotate_frame split: option.splits prod.splits)



section \<open>Idle rotation\<close>

text \<open>
  A rotation asked for while the session is live does what its comments say: it posts the
  SessionEnd under the old id, draws a new id and posts the SessionStart under it.
\<close>

lemma explicit_rotation_in_live_session:
  "fst (rotateRUMSession 2 fresh_monitor) = Resolved
   \<and> map (\<lambda>p. (type p, sessionId p)) (posted (snd (rotateRUMSession 2 fresh_monitor)))
       = [(SessionStart, ''guid-0''), (SessionEnd, ''guid-0''), (SessionStart, ''guid-1'')]
   \<and> RealUserMonitoringSessionId (snd (rotateRUMSession 2 fresh_monitor)) = ''guid-1''"
  by (simp add: fresh_monitor_def fresh_env_def rum_defs Let_def eval_nat)

text \<open>
  Once every later clock reading lies more than the threshold after the last interaction,
  the transmission and the rotation only call each other: each reads the clock and changes
  nothing else, whatever the depth of stack at hand.
\<close>

lemma expired_never_completes:
  assumes "\<forall>i\<ge>ticks s. SessionRotateThreshold < clock s i - lastSessionInteractionTime s"
  shows "(\<exists>k. transmitRealUserMonitoringEvent n eventName d timeAt s
               = (Rejected StackOverflow, s\<lparr>ticks := ticks s + k\<rparr>))
       \<and> (\<exists>k. rotateRUMSession n s = (Rejected StackOverflow, s\<lparr>ticks := ticks s + k\<rparr>))"
  using assms
proof (induction n arbitrary: s eventName d timeAt)
  case 0
  have "s\<lparr>ticks := ticks s + 0\<rparr> = s" by simp
  then show ?case by (metis transmitRealUserMonitoringEvent.simps(1) rotateRUMSession.simps(1))
next
  case (Suc n)
  let ?s1 = "s\<lparr>ticks := Suc (ticks s)\<rparr>"
  have late: "SessionRotateThreshold < clock s (ticks s) - lastSessionInteractionTime s"
    using Suc.prems by simp
  have "\<forall>i\<ge>ticks ?s1. SessionRotateThreshold < clock ?s1 i - lastSessionInteractionTime ?s1"
    using Suc.prems by simp
  from Suc.IH [OF this] obtain k where
    rot: "rotateRUMSession n ?s1 = (Rejected StackOverflow, ?s1\<lparr>ticks := ticks ?s1 + k\<rparr>)"
    by blast
  have tr: "transmitRealUserMonitoringEvent (Suc n) eventName d timeAt s
              = (Rejected StackOverflow, s\<lparr>ticks := ticks s + Suc k\<rparr>)"
    using late rot by (simp add: Date_now_def)
  from Suc.IH [OF Suc.prems] obtain j where
    "transmitRealUserMonitoringEvent n SessionEnd NoData Undefined s
       = (Rejected StackOverflow, s\<lparr>ticks := ticks s + j\<rparr>)"
    by blast
  then have "rotateRUMSession (Suc n) s = (Rejected StackOverflow, s\<lparr>ticks := ticks s + j\<rparr>)"
    by simp
  with tr show ?case by blast
qed



lemma idle_transmission_posts_nothing:
  assumes "mono (clock s)"
    and "SessionRotateThreshold < clock s (ticks s) - lastSessionInteractionTime s"
  shows "posted (snd (transmitRealUserMonitoringEvent n eventName d timeAt s)) = posted s"
proof -
  have "\<forall>i\<ge>ticks s. SessionRotateThreshold < clock s i - lastSessionInteractionTime s"
  proof (intro allI impI)
    fix i assume "ticks s \<le> i"
    with assms(1) have "clock s (ticks s) \<le> clock s i" by (rule monoD)
    with assms(2) show "SessionRotateThreshold < clock s i - lastSessionInteractionTime s" by simp
  qed
  from expired_never_completes [OF this] obtain k where
    "transmitRealUserMonitoringEvent n eventName d timeAt s
       = (Rejected StackOverflow, s\<lparr>ticks := ticks s + k\<rparr>)"
    by blast
  then show ?thesis by simp
qed

text \<open>
  C1. A call to \<^verbatim>\<open>transmitRealUserMonitoringEvent\<close> made more than thirty minutes after the
  last interaction should emit one SessionEnd under the old id, one SessionStart under a new
  id, and then the triggering event. The code instead re-enters the idle check for the
  SessionEnd transmission before the interaction time is reset: with a clock that does not
  run backwards, the call ends in a stack overflow for every stack depth \<open>n\<close>, posts
  nothing, and leaves the session id and the interaction time as they were.
\<close>

theorem transmit_after_idle_overflows:
  assumes "mono (clock s)"
    and "SessionRotateThreshold < clock s (ticks s) - lastSessionInteractionTime s"
  shows "fst (transmitRealUserMonitoringEvent n eventName d timeAt s) = Rejected StackOverflow
       \<and> posted (snd (transmitRealUserMonitoringEvent n eventName d timeAt s)) = posted s
       \<and> RealUserMonitoringSessionId (snd (transmitRealUserMonitoringEvent n eventName d timeAt s))
           = RealUserMonitoringSessionId s
       \<and> lastSessionInteractionTime (snd (transmitRealUserMonitoringEvent n eventName d timeAt s))
           = lastSessionInteractionTime s"
proof -
  have "\<forall>i\<ge>ticks s. SessionRotateThreshold < clock s i - lastSessionInteractionTime s"
  proof (intro allI impI)
    fix i assume "ticks s \<le> i"
    with assms(1) have "clock s (ticks s) \<le> clock s i" by (rule monoD)
    with assms(2) show "SessionRotateThreshold < clock s i - lastSessionInteractionTime s" by simp
  qed
  from expired_never_completes [OF this] obtain k where
    "transmitRealUserMonitoringEvent n eventName d timeAt s
       = (Rejected StackOverflow, s\<lparr>ticks := ticks s + k\<rparr>)"
    by blast
  then show ?thesis by simp
qed

theorem transmit_after_idle_overflows_witness:
  "mono (clock idle_monitor)
   \<and> SessionRotateThreshold < clock idle_monitor (ticks idle_monitor) - lastSessionInteractionTime idle_monitor
   \<and> fst (transmitRealUserMonitoringEvent 1000 EventTiming (Timing ''Home'' ViewLoaded (Num 12)) Undefined idle_monitor)
       = Rejected StackOverflow
   \<and> map type (posted (snd (transmitRealUserMonitoringEvent 1000 EventTiming (Timing ''Home'' ViewLoaded (Num 12)) Undefined idle_monitor)))
       = [SessionStart]
   \<and> RealUserMonitoringSessionId (snd (transmitRealUserMonitoringEvent 1000 EventTiming (Timing ''Home'' ViewLoaded (Num 12)) Undefined idle_monitor))
       = ''guid-0''"
proof -
  have m: "mono (clock idle_monitor)"
    by (simp add: idle_monitor_facts mono_def)
  have e: "SessionRotateThreshold < clock idle_monitor (ticks idle_monitor) - lastSessionInteractionTime idle_monitor"
    by (simp add: idle_monitor_facts SessionRotateThreshold_def)
  show ?thesis
    using m e transmit_after_idle_overflows [OF m e, of 1000 EventTiming "Timing ''Home'' ViewLoaded (Num 12)" Undefined]
    by (simp add: idle_monitor_facts)
qed


section \<open>Transmission in a live session\<close>

text \<open>
  When the clock reading of the idle check lies within the threshold, the transmission
  marks the interaction and posts one payload, provided a given event time is a valid date.
\<close>

lemma transmit_not_idle:
  assumes "\<not> SessionRotateThreshold < clock s (ticks s) - lastSessionInteractionTime s"
  shows "transmitRealUserMonitoringEvent (Suc n) ev d t s
           = sendPayload ev d t
               (s\<lparr>ticks := Suc (Suc (ticks s)), lastSessionInteractionTime := clock s (Suc (ticks s))\<rparr>)"
  using assms by (simp add: Date_now_def markSessionInteraction_def)

lemma sendPayload_posts:
  assumes "\<forall>x. t = Num x \<longrightarrow> \<bar>x\<bar> \<le> 8640000000000000"
  shows "fst (sendPayload ev d t s) = Resolved
       \<and> (\<exists>p. posted (snd (sendPayload ev d t s)) = posted s @ [p] \<and> type p = ev \<and> data p = d
               \<and> sessionId p = RealUserMonitoringSessionId s)"
  using assms
  by (cases t)
     (auto simp: sendPayload_def generateRealUserMonitorPayload_def toTimestamp_def Date_now_def
        fetch_post_def toISOString_def)


section \<open>View timing\<close>

text \<open>
  C7. The pending-view map holds at most one load record per view name (it is a map from
  names), and for a view name that is already pending a second \<^verbatim>\<open>viewBeginsLoading\<close>
  leaves the map, and so the stored start time, unchanged: the call only writes its debug
  line.
\<close>

theorem viewBeginsLoading_keeps_first_start:
  assumes "loadingViews s viewname = Some t0"
  shows "loadingViews (viewBeginsLoading viewname t s) = loadingViews s
       \<and> loadingViews (viewBeginsLoading viewname t s) viewname = Some t0
       \<and> viewBeginsLoading viewname t s = s\<lparr>logged := logged s @ [ViewStartedLoading viewname]\<rparr>"
  using assms by (simp add: viewBeginsLoading_def)

theorem viewBeginsLoading_keeps_first_start_witness:
  "loadingViews (viewBeginsLoading ''Home'' (Num 100) fresh_monitor) ''Home'' = Some (Num 100)
   \<and> loadingViews (viewBeginsLoading ''Home'' (Num 250) (viewBeginsLoading ''Home'' (Num 100) fresh_monitor))
       = loadingViews (viewBeginsLoading ''Home'' (Num 100) fresh_monitor)
   \<and> loadingViews (viewBeginsLoading ''Home'' (Num 250) (viewBeginsLoading ''Home'' (Num 100) fresh_monitor)) ''Home''
       = Some (Num 100)"
proof -
  have p: "loadingViews (viewBeginsLoading ''Home'' (Num 100) fresh_monitor) ''Home'' = Some (Num 100)"
    by (simp add: viewBeginsLoading_def fresh_monitor_facts)
  show ?thesis
    using p viewBeginsLoading_keeps_first_start [OF p, of "Num 250"] by simp
qed

text \<open>
  A start time of zero, once recorded, is never removed: no call changes the record.
\<close>

lemma zero_start_kept_by_dispatch:
  assumes "loadingViews s viewname = Some (Num 0)"
  shows "loadingViews (dispatch U c s) viewname = Some (Num 0)"
proof (cases c)
  case (Pair n cb)
  show ?thesis
  proof (cases cb)
    case OnSessionPause
    with Pair assms show ?thesis by (simp add: mark_frame)
  next
    case OnSessionResume
    with Pair assms show ?thesis by (simp add: transmit_rotate_frame)
  next
    case (OnViewLoading v t)
    with Pair assms show ?thesis by (auto simp: viewBeginsLoading_def Let_def)
  next
    case (OnViewLoaded v t)
    with Pair assms show ?thesis
      by (auto simp: viewFinishesLoading_def sendViewLoadedEvent_def Let_def transmit_rotate_frame
          split: option.splits)
  next
    case (OnOpen m u x)
    with Pair assms show ?thesis by (simp add: handleRequestOpen_def Let_def)
  next
    case (OnSend b x)
    with Pair assms show ?thesis
      by (auto simp: handleRequestSend_def Date_now_def split: option.splits)
  next
    case (OnResponse a b c d e x)
    with Pair assms show ?thesis by (simp add: handleResponse_frame)
  next
    case (CustomRUMEvent e nm d)
    with Pair assms show ?thesis by (simp add: sendCustomRUMEvent_frame)
  next
    case NewSessionId
    with Pair assms show ?thesis by (simp add: generateNewSessionId_def)
  next
    case (NetworkTimingEvent nm t d)
    with Pair assms show ?thesis by (simp add: sendNetworkTimingEvent_def transmit_rotate_frame)
  next
    case (ViewLoadedEvent nm d)
    with Pair assms show ?thesis by (simp add: sendViewLoadedEvent_def transmit_rotate_frame)
  next
    case (Transmit ev d t)
    with Pair assms show ?thesis by (simp add: transmit_rotate_frame)
  qed
qed

lemma zero_start_kept_by_run:
  "loadingViews s viewname = Some (Num 0) \<Longrightarrow> loadingViews (run U cs s) viewname = Some (Num 0)"
  by (induction cs arbitrary: s) (simp_all add: zero_start_kept_by_dispatch)

text \<open>
  C10. When \<^verbatim>\<open>viewBeginsLoading\<close> records the start time 0 for a view name, a following
  \<^verbatim>\<open>viewFinishesLoading\<close> for that name posts no event and keeps the record (the falsy
  start time is treated as missing), and the name stays pending with that start time after
  every further sequence of calls.
\<close>

theorem zero_start_time_pending_forever:
  assumes "loadingViews s viewname = None"
  shows "loadingViews (viewBeginsLoading viewname (Num 0) s) viewname = Some (Num 0)
       \<and> posted (viewFinishesLoading n U viewname t (viewBeginsLoading viewname (Num 0) s)) = posted s
       \<and> loadingViews (viewFinishesLoading n U viewname t (viewBeginsLoading viewname (Num 0) s)) viewname
           = Some (Num 0)
       \<and> loadingViews (run U cs (viewBeginsLoading viewname (Num 0) s)) viewname = Some (Num 0)"
proof -
  let ?s1 = "viewBeginsLoading viewname (Num 0) s"
  have p: "loadingViews ?s1 viewname = Some (Num 0)"
    using assms by (simp add: viewBeginsLoading_def)
  have q: "posted (viewFinishesLoading n U viewname t ?s1) = posted s"
    using assms by (simp add: viewFinishesLoading_def viewBeginsLoading_def)
  have r: "loadingViews (viewFinishesLoading n U viewname t ?s1) viewname = Some (Num 0)"
    using zero_start_kept_by_dispatch [OF p, of U "(n, OnViewLoaded viewname t)"] by simp
  from p q r zero_start_kept_by_run [OF p] show ?thesis by blast
qed

theorem zero_start_time_pending_forever_witness:
  "loadingViews fresh_monitor ''Home'' = None
   \<and> loadingViews (viewBeginsLoading ''Home'' (Num 0) fresh_monitor) ''Home'' = Some (Num 0)
   \<and> posted (viewFinishesLoading 3 utils0 ''Home'' (Num 40) (viewBeginsLoading ''Home'' (Num 0) fresh_monitor))
       = posted fresh_monitor
   \<and> loadingViews (viewFinishesLoading 3 utils0 ''Home'' (Num 40) (viewBeginsLoading ''Home'' (Num 0) fresh_monitor)) ''Home''
       = Some (Num 0)
   \<and> loadingViews (run utils0 [(3, OnViewLoaded ''Home'' (Num 40)), (3, OnViewLoading ''Home'' (Num 50)),
                                (3, OnViewLoaded ''Home'' (Num 90))]
                      (viewBeginsLoading ''Home'' (Num 0) fresh_monitor)) ''Home'' = Some (Num 0)"
proof -
  have p: "loadingViews fresh_monitor ''Home'' = None"
    by (simp add: fresh_monitor_facts)
  show ?thesis
    using p zero_start_time_pending_forever [OF p, of 3 utils0 "Num 40"
        "[(3, OnViewLoaded ''Home'' (Num 40)), (3, OnViewLoading ''Home'' (Num 50)), (3, OnViewLoaded ''Home'' (Num 90))]"]
    by simp
qed





section \<open>Custom events\<close>

text \<open>
  C8. For an event type that is neither ViewLoaded nor NetworkCall,
  \<^verbatim>\<open>sendCustomRUMEvent\<close> should log a warning and transmit nothing. The monitor of
  sdk/src transmits nothing and logs nothing: the call returns the state as it was. The
  earlier monitor does log the warning.
\<close>

theorem sendCustomRUMEvent_unknown_type_silent:
  "sendCustomRUMEvent n U (UnknownTiming e) nm duration s = s
   \<and> logged (sendCustomRUMEvent n U (UnknownTiming e) nm duration s) = logged s
   \<and> posted (sendCustomRUMEvent n U (UnknownTiming e) nm duration s) = posted s
   \<and> logged_p0 (sendCustomRUMEvent_p0 key (UnknownTiming e) nm duration endpoint m)
       = logged_p0 m @ [Warn_UnknownRUMEventType (UnknownTiming e)]
   \<and> posted_p0 (sendCustomRUMEvent_p0 key (UnknownTiming e) nm duration endpoint m) = posted_p0 m"
  by (simp add: sendCustomRUMEvent_def sendCustomRUMEvent_p0_def)

section \<open>Network timing\<close>

text \<open>
  C9. For a correlation id whose \<^verbatim>\<open>RequestMeta\<close> is present and whose \<^verbatim>\<open>sendTime\<close> was
  never set, \<^verbatim>\<open>handleResponse\<close> should still emit a NetworkCall timing whose duration is
  the clock reading minus \<^verbatim>\<open>undefined\<close>, that is NaN. In a session that is not idle beyond
  the threshold it does: exactly that event is posted. In an idle session the response is
  dropped: the transmission it starts never completes, for every stack depth \<open>n\<close>, and
  nothing is posted.
\<close>

theorem handleResponse_unset_sendTime:
  assumes "xhr_id xhr = Some i" and "requests s i = Some m" and "sendTime m = Undefined"
  shows "(mono (clock s)
          \<and> SessionRotateThreshold < clock s (Suc (ticks s)) - lastSessionInteractionTime s
            \<longrightarrow> posted (handleResponse n status timeout resp respUrl respType xhr s) = posted s)
       \<and> (0 < n \<and> \<not> SessionRotateThreshold < clock s (Suc (ticks s)) - lastSessionInteractionTime s
            \<longrightarrow> (\<exists>p. posted (handleResponse n status timeout resp respUrl respType xhr s) = posted s @ [p]
                    \<and> type p = EventTiming \<and> data p = Timing (name m) NetworkCall NaN))"
proof -
  let ?s1 = "snd (Date_now s)"
  have eq: "handleResponse n status timeout resp respUrl respType xhr s
              = sendNetworkTimingEvent n (name m) Undefined NaN ?s1"
    using assms by (simp add: handleResponse_def Date_now_def)
  have drop: "posted (handleResponse n status timeout resp respUrl respType xhr s) = posted s"
    if mono: "mono (clock s)"
      and idle: "SessionRotateThreshold < clock s (Suc (ticks s)) - lastSessionInteractionTime s"
  proof -
    have m1: "mono (clock ?s1)" using mono by (simp add: Date_now_def)
    have i1: "SessionRotateThreshold < clock ?s1 (ticks ?s1) - lastSessionInteractionTime ?s1"
      using idle by (simp add: Date_now_def)
    from idle_transmission_posts_nothing [OF m1 i1, of n EventTiming "Timing (name m) NetworkCall NaN" Undefined]
    show ?thesis unfolding eq sendNetworkTimingEvent_def by (simp add: Date_now_def)
  qed
  have emit: "\<exists>p. posted (handleResponse n status timeout resp respUrl respType xhr s) = posted s @ [p]
                \<and> type p = EventTiming \<and> data p = Timing (name m) NetworkCall NaN"
    if n: "0 < n" and fresh: "\<not> SessionRotateThreshold < clock s (Suc (ticks s)) - lastSessionInteractionTime s"
  proof -
    from n obtain k where k: "n = Suc k" by (cases n) auto
    let ?s2 = "?s1\<lparr>ticks := Suc (Suc (ticks ?s1)),
                    lastSessionInteractionTime := clock ?s1 (Suc (ticks ?s1))\<rparr>"
    have f: "\<not> SessionRotateThreshold < clock ?s1 (ticks ?s1) - lastSessionInteractionTime ?s1"
      using fresh by (simp add: Date_now_def)
    have h: "handleResponse n status timeout resp respUrl respType xhr s
               = snd (sendPayload EventTiming (Timing (name m) NetworkCall NaN) Undefined ?s2)"
      using eq transmit_not_idle [OF f, of k] by (simp add: sendNetworkTimingEvent_def k)
    have u: "\<forall>x. Undefined = Num x \<longrightarrow> \<bar>x\<bar> \<le> 8640000000000000" by simp
    have p: "posted ?s2 = posted s" by (simp add: Date_now_def)
    from sendPayload_posts [OF u, of EventTiming "Timing (name m) NetworkCall NaN" ?s2]
    show ?thesis unfolding h p by blast
  qed
  from drop emit show ?thesis by blast
qed

theorem handleResponse_unset_sendTime_witness:
  "xhr_id xhr1 = Some ''device-1''
   \<and> requests idle_unsent_monitor ''device-1''
       = Some \<lparr>name = ''GET https://example.com/a'', sendTime = Undefined\<rparr>
   \<and> mono (clock idle_unsent_monitor)
   \<and> SessionRotateThreshold
       < clock idle_unsent_monitor (Suc (ticks idle_unsent_monitor))
           - lastSessionInteractionTime idle_unsent_monitor
   \<and> map type (posted (handleResponse 1000 200 0 [] [] [] xhr1 idle_unsent_monitor)) = [SessionStart]
   \<and> requests unsent_monitor ''device-1''
       = Some \<lparr>name = ''GET https://example.com/a'', sendTime = Undefined\<rparr>
   \<and> map data (posted (handleResponse 3 200 0 [] [] [] xhr1 unsent_monitor))
       = [NoData, Timing ''GET https://example.com/a'' NetworkCall NaN]"
proof -
  let ?m = "\<lparr>name = ''GET https://example.com/a'', sendTime = Undefined\<rparr>"
  have a: "xhr_id xhr1 = Some ''device-1''" by (simp add: xhr1_def)
  have c: "sendTime ?m = Undefined" by simp
  have bi: "requests idle_unsent_monitor ''device-1'' = Some ?m"
    by (simp add: idle_unsent_monitor_facts)
  have mi: "mono (clock idle_unsent_monitor)"
    by (simp add: idle_unsent_monitor_facts mono_def)
  have ii: "SessionRotateThreshold
       < clock idle_unsent_monitor (Suc (ticks idle_unsent_monitor))
           - lastSessionInteractionTime idle_unsent_monitor"
    by (simp add: idle_unsent_monitor_facts SessionRotateThreshold_def)
  from handleResponse_unset_sendTime [OF a bi c, of 1000 200 0 "[]" "[]" "[]"] mi ii
  have "posted (handleResponse 1000 200 0 [] [] [] xhr1 idle_unsent_monitor) = posted idle_unsent_monitor"
    by blast
  then have di: "map type (posted (handleResponse 1000 200 0 [] [] [] xhr1 idle_unsent_monitor)) = [SessionStart]"
    by (simp add: idle_unsent_monitor_facts)
  have b: "requests unsent_monitor ''device-1'' = Some ?m"
    by (simp add: unsent_monitor_facts)
  have d: "map data (posted unsent_monitor) = [NoData]"
    by (simp add: unsent_monitor_facts fresh_monitor_def fresh_env_def rum_defs Let_def numeral_3_eq_3)
  from handleResponse_unset_sendTime [OF a b c, of 3 200 0 "[]" "[]" "[]"]
  have "0 < (3::nat) \<and> \<not> SessionRotateThreshold
            < clock unsent_monitor (Suc (ticks unsent_monitor)) - lastSessionInteractionTime unsent_monitor
          \<longrightarrow> (\<exists>p. posted (handleResponse 3 200 0 [] [] [] xhr1 unsent_monitor) = posted unsent_monitor @ [p]
                  \<and> type p = EventTiming
                  \<and> data p = Timing (name ?m) NetworkCall NaN)"
    by (rule conjunct2)
  then have "\<exists>p. posted (handleResponse 3 200 0 [] [] [] xhr1 unsent_monitor) = posted unsent_monitor @ [p]
           \<and> type p = EventTiming \<and> data p = Timing ''GET https://example.com/a'' NetworkCall NaN"
    by (simp add: unsent_monitor_facts SessionRotateThreshold_def)
  with d have dl: "map data (posted (handleResponse 3 200 0 [] [] [] xhr1 unsent_monitor))
       = [NoData, Timing ''GET https://example.com/a'' NetworkCall NaN]"
    by auto
  from a bi mi ii di b dl show ?thesis by blast
qed

text \<open>
  C2, as the code has it. \<^verbatim>\<open>handleResponse\<close> leaves the pending-request map unchanged,
  whatever the status code, which it never reads. When the id's entry is present, the
  session is not idle beyond the threshold and the stored send time is a valid date, each
  call posts exactly one NetworkCall timing for it; when the call context carries no
  pending id, the call changes nothing.
\<close>

theorem handleResponse_keeps_request:
  "requests (handleResponse n status timeout resp respUrl respType xhr s) = requests s
   \<and> (xhr_id xhr = Some i \<and> requests s i = Some m \<and> 0 < n
        \<and> \<not> SessionRotateThreshold < clock s (Suc (ticks s)) - lastSessionInteractionTime s
        \<and> (\<forall>x. sendTime m = Num x \<longrightarrow> \<bar>x\<bar> \<le> 8640000000000000)
      \<longrightarrow> (\<exists>p. posted (handleResponse n status timeout resp respUrl respType xhr s) = posted s @ [p]
              \<and> type p = EventTiming
              \<and> data p = Timing (name m) NetworkCall
                           (js_minus (Num (of_int (clock s (ticks s)))) (sendTime m))))
   \<and> ((\<forall>j. xhr_id xhr = Some j \<longrightarrow> requests s j = None)
      \<longrightarrow> handleResponse n status timeout resp respUrl respType xhr s = s)"
proof (intro conjI impI)
  show "requests (handleResponse n status timeout resp respUrl respType xhr s) = requests s"
    by (rule handleResponse_frame)
next
  assume a: "xhr_id xhr = Some i \<and> requests s i = Some m \<and> 0 < n
        \<and> \<not> SessionRotateThreshold < clock s (Suc (ticks s)) - lastSessionInteractionTime s
        \<and> (\<forall>x. sendTime m = Num x \<longrightarrow> \<bar>x\<bar> \<le> 8640000000000000)"
  then obtain k where k: "n = Suc k" by (cases n) auto
  let ?s1 = "snd (Date_now s)"
  let ?d = "Timing (name m) NetworkCall (js_minus (Num (of_int (clock s (ticks s)))) (sendTime m))"
  let ?s2 = "?s1\<lparr>ticks := Suc (Suc (ticks ?s1)),
                  lastSessionInteractionTime := clock ?s1 (Suc (ticks ?s1))\<rparr>"
  have f: "\<not> SessionRotateThreshold < clock ?s1 (ticks ?s1) - lastSessionInteractionTime ?s1"
    using a by (simp add: Date_now_def)
  have h: "handleResponse n status timeout resp respUrl respType xhr s
             = snd (sendPayload EventTiming ?d (sendTime m) ?s2)"
    using a transmit_not_idle [OF f, of k EventTiming ?d "sendTime m"]
    by (simp add: handleResponse_def sendNetworkTimingEvent_def k Date_now_def)
  have u: "\<forall>x. sendTime m = Num x \<longrightarrow> \<bar>x\<bar> \<le> 8640000000000000" using a by blast
  have p: "posted ?s2 = posted s" by (simp add: Date_now_def)
  from sendPayload_posts [OF u, of EventTiming ?d ?s2]
  show "\<exists>p. posted (handleResponse n status timeout resp respUrl respType xhr s) = posted s @ [p]
              \<and> type p = EventTiming \<and> data p = ?d"
    unfolding h p by blast
next
  assume "\<forall>j. xhr_id xhr = Some j \<longrightarrow> requests s j = None"
  then show "handleResponse n status timeout resp respUrl respType xhr s = s"
    by (auto simp: handleResponse_def split: option.splits)
qed

theorem handleResponse_keeps_request_witness:
  "requests (handleResponse 3 404 0 [] [] [] xhr1 pending_monitor) = requests pending_monitor
   \<and> map data (posted (handleResponse 3 404 0 [] [] [] xhr1 pending_monitor))
       = [NoData, Timing ''GET https://example.com/a'' NetworkCall (Num 1)]
   \<and> handleResponse 3 404 0 [] [] [] \<lparr>xhr_id = Some ''device-2''\<rparr> pending_monitor = pending_monitor"
proof -
  let ?m = "\<lparr>name = ''GET https://example.com/a'', sendTime = Num 1005\<rparr>"
  note T = handleResponse_keeps_request [of 3 404 0 "[]" "[]" "[]" xhr1 pending_monitor "''device-1''" ?m]
  from T have a: "requests (handleResponse 3 404 0 [] [] [] xhr1 pending_monitor) = requests pending_monitor"
    by (rule conjunct1)
  from T have "\<exists>p. posted (handleResponse 3 404 0 [] [] [] xhr1 pending_monitor) = posted pending_monitor @ [p]
              \<and> type p = EventTiming \<and> data p = Timing ''GET https://example.com/a'' NetworkCall (Num 1)"
    by (simp add: pending_monitor_facts xhr1_def SessionRotateThreshold_def)
  moreover have "map data (posted pending_monitor) = [NoData]"
    by (simp add: pending_monitor_facts fresh_monitor_def fresh_env_def rum_defs Let_def numeral_3_eq_3)
  ultimately have b: "map data (posted (handleResponse 3 404 0 [] [] [] xhr1 pending_monitor))
       = [NoData, Timing ''GET https://example.com/a'' NetworkCall (Num 1)]"
    by auto
  have "requests pending_monitor ''device-2'' = None"
    by (simp add: pending_monitor_def xhr1_def handleRequestSend_def handleRequestOpen_def
      getDeviceId_def utils0_def Date_now_def Let_def fresh_monitor_facts)
  with handleResponse_keeps_request [of 3 404 0 "[]" "[]" "[]" "\<lparr>xhr_id = Some ''device-2''\<rparr>" pending_monitor]
  have c: "handleResponse 3 404 0 [] [] [] \<lparr>xhr_id = Some ''device-2''\<rparr> pending_monitor = pending_monitor"
    by simp
  from a b c show ?thesis by blast
qed

text \<open>
  The claim itself fails: after a response the entry is still in the map, and a second
  response for the same id posts a second NetworkCall timing.
\<close>

theorem handleResponse_removes_nothing_counterexample:
  "requests (handleResponse 3 200 0 [] [] [] xhr1 pending_monitor) ''device-1''
     = Some \<lparr>name = ''GET https://example.com/a'', sendTime = Num 1005\<rparr>
   \<and> map data (posted (handleResponse 3 500 0 [] [] [] xhr1
                        (handleResponse 3 200 0 [] [] [] xhr1 pending_monitor)))
       = [NoData, Timing ''GET https://example.com/a'' NetworkCall (Num 1),
          Timing ''GET https://example.com/a'' NetworkCall (Num 4)]"
  by (simp add: pending_monitor_def xhr1_def handler_defs utils0_def Let_def
      fresh_monitor_def fresh_env_def rum_defs eval_nat)






section \<open>The client's session and crash reports\<close>

text \<open>
  C4, as the code has it. Whatever the session was, after \<^verbatim>\<open>clearSession\<close> the user
  identifier is \<open>anonymous-\<close> followed by the device-based id, the breadcrumbs and the custom
  data are empty, and the tags are exactly the one tag \<open>React Native\<close>. This holds also
  when the call is made before \<^verbatim>\<open>init\<close> and throws after the assignment.
\<close>

theorem clearSession_yields_clean_session:
  "identifier' (Session.user (curSession (snd (clearSession c)))) = ''anonymous-'' @ deviceBasedId c
   \<and> take 10 (identifier' (Session.user (curSession (snd (clearSession c))))) = ''anonymous-''
   \<and> Session.tags (curSession (snd (clearSession c))) = [''React Native'']
   \<and> breadcrumbs (curSession (snd (clearSession c))) = []
   \<and> Session.customData (curSession (snd (clearSession c))) = Map.empty"
  by (simp add: clearSession_def getCleanSession_def Let_def split: option.split)

theorem clearSession_yields_clean_session_witness:
  "identifier' (Session.user (curSession (snd (clearSession client0)))) = ''anonymous-device-1''
   \<and> Session.tags (curSession (snd (clearSession (snd (addTag [''x'', ''Fatal'', ''x''] client0)))))
       = [''React Native'']
   \<and> breadcrumbs (curSession (snd (clearSession client0))) = []
   \<and> Session.customData (curSession (snd (clearSession client0))) = Map.empty"
  using clearSession_yields_clean_session [of client0]
    clearSession_yields_clean_session [of "snd (addTag [''x'', ''Fatal'', ''x''] client0)"]
  by (simp add: client0_def)

text \<open>
  The claim itself fails on the tags: the clean session is created with the tag
  \<open>React Native\<close>, so the tag set after \<^verbatim>\<open>clearSession\<close> is not empty.
\<close>

theorem clearSession_keeps_tag_counterexample:
  "Session.tags (curSession client0) = [''React Native'', ''x'']
   \<and> Session.tags (curSession (snd (clearSession client0))) = [''React Native'']
   \<and> Session.tags (curSession (snd (clearSession client0))) \<noteq> []"
  by (simp add: clearSession_def getCleanSession_def client0_def Let_def)

text \<open>
  C6. On a client that has been initialised, building the payload from an error with the
  message \<open>boom\<close>, the single frame \<open>a.js\<close>, line 5, column 2, and a session whose tags are
  \<open>x\<close> gives the message \<open>boom\<close>, the tags \<open>[x]\<close> and exactly one stack-trace entry, with
  line number 5; and for every error (absent altogether, or without a name or a message),
  every frame argument and every session the build succeeds, with the empty string for the
  class name when the name is missing and for the message when the message is missing.
\<close>

theorem generateCrashReportPayload_example_and_defaults:
  assumes "GlobalOptions c = Some opts"
  shows "(\<exists>p. generateCrashReportPayload c (Some \<lparr>JSError.name = n, JSError.message = Some ''boom''\<rparr>)
                (FrameArray [\<lparr>file' = Some ''a.js'', methodName = mn, lineNumber = Some 5,
                               column = Some 2\<rparr>])
                (session\<lparr>Session.tags := [''x'']\<rparr>) = Inr p
            \<and> Message (Error (Details p)) = ''boom''
            \<and> Tags (Details p) = [''x'']
            \<and> map LineNumber (StackTrace (Error (Details p))) = [Some 5])
       \<and> (\<exists>p. generateCrashReportPayload c err frames session = Inr p
            \<and> ((err = None \<or> (\<exists>e. err = Some e \<and> JSError.name e = None))
                  \<longrightarrow> CrashError.ClassName (Error (Details p)) = [])
            \<and> ((err = None \<or> (\<exists>e. err = Some e \<and> JSError.message e = None))
                  \<longrightarrow> Message (Error (Details p)) = []))"
  using assms
  by (auto simp: generateCrashReportPayload_def convertToCrashReportingStackFrame_def or_empty_def
      Let_def split: option.splits)


theorem generateCrashReportPayload_example_and_defaults_witness:
  "GlobalOptions client0
     = Some \<lparr>enableNativeCrashReporting = True, enableRUM = True, RaygunClientOptions.version = ''1.0''\<rparr>
   \<and> (\<exists>p. generateCrashReportPayload client0
               (Some \<lparr>JSError.name = None, JSError.message = Some ''boom''\<rparr>)
               (FrameArray [\<lparr>file' = Some ''a.js'', methodName = None, lineNumber = Some 5,
                              column = Some 2\<rparr>])
               ((curSession client0)\<lparr>Session.tags := [''x'']\<rparr>) = Inr p
          \<and> Message (Error (Details p)) = ''boom''
          \<and> Tags (Details p) = [''x'']
          \<and> map LineNumber (StackTrace (Error (Details p))) = [Some 5]
          \<and> CrashError.ClassName (Error (Details p)) = [])
   \<and> (\<exists>p. generateCrashReportPayload client0 None
               (SingleFrame \<lparr>file' = None, methodName = None, lineNumber = None, column = None\<rparr>)
               (curSession client0) = Inr p
          \<and> CrashError.ClassName (Error (Details p)) = []
          \<and> Message (Error (Details p)) = [])"
proof -
  let ?opts = "\<lparr>enableNativeCrashReporting = True, enableRUM = True, RaygunClientOptions.version = ''1.0''\<rparr>"
  let ?e = "\<lparr>JSError.name = None, JSError.message = Some ''boom''\<rparr>"
  let ?f = "FrameArray [\<lparr>file' = Some ''a.js'', methodName = None, lineNumber = Some 5, column = Some 2\<rparr>]"
  let ?s = "(curSession client0)\<lparr>Session.tags := [''x'']\<rparr>"
  have g: "GlobalOptions client0 = Some ?opts" by (simp add: client0_def)
  note T1 = generateCrashReportPayload_example_and_defaults
    [OF g, of None None ?s "Some ?e" ?f]
  note T2 = generateCrashReportPayload_example_and_defaults
    [OF g, of None None "curSession client0" None
       "SingleFrame \<lparr>file' = None, methodName = None, lineNumber = None, column = None\<rparr>"]
  from T1 have a: "\<exists>p. generateCrashReportPayload client0 (Some ?e) ?f ?s = Inr p
          \<and> Message (Error (Details p)) = ''boom''
          \<and> Tags (Details p) = [''x'']
          \<and> map LineNumber (StackTrace (Error (Details p))) = [Some 5]
          \<and> CrashError.ClassName (Error (Details p)) = []"
    by auto
  from T2 have b: "\<exists>p. generateCrashReportPayload client0 None
               (SingleFrame \<lparr>file' = None, methodName = None, lineNumber = None, column = None\<rparr>)
               (curSession client0) = Inr p
          \<and> CrashError.ClassName (Error (Details p)) = []
          \<and> Message (Error (Details p)) = []"
    by auto
  from g a b show ?thesis by blast
qed


end
